theory Spec2Isabelle
  imports Main "HOL-Library.Sublist"
begin

section \<open>Errors and the outcome of a call\<close>

text \<open>
  Modelled from the spec: \<^verbatim>\<open>nexus/error.hpp\<close> is not among the sources. The spec
  describes an \<^verbatim>\<open>Error\<close> as "a value carrying one of a fixed set of kinds plus a
  human-readable message"; \<^verbatim>\<open>Unwrap\<close> is the only kind \<^verbatim>\<open>result.hpp\<close> names, the other
  kinds of the enumeration are summarised by \<open>OtherKind\<close>.
\<close>

datatype ErrorKind = Unwrap | OtherKind

datatype Error = Error (kind: ErrorKind) (message: string)

text \<open>
  Modelled from the spec: the constructor \<^verbatim>\<open>Error(kind, fmt, args...)\<close> of the absent
  \<^verbatim>\<open>nexus/error.hpp\<close> builds its message from a format string and arguments ("raises an
  Unwrap error whose message includes the formatted error payload"). \<open>format\<close> replaces
  each placeholder \<^verbatim>\<open>{}\<close> of the format string by the next argument, already converted to
  its display string.
\<close>

fun format :: "string \<Rightarrow> string list \<Rightarrow> string" where
  "format (c # d # rest) args =
     (if c = CHR ''{'' \<and> d = CHR ''}''
      then (case args of [] \<Rightarrow> format rest [] | a # as \<Rightarrow> a @ format rest as)
      else c # format (d # rest) args)"
| "format fmt args = fmt"

definition Error_fmt :: "ErrorKind \<Rightarrow> string \<Rightarrow> string list \<Rightarrow> Error" where
  "Error_fmt k fmt args = Error k (format fmt args)"

text \<open>
  A call of a C++ function either returns a value, or leaves by a thrown \<^verbatim>\<open>Error\<close>, or has
  no defined behaviour: control reaches the end of a function whose return type is not
  \<^verbatim>\<open>void\<close> without a \<^verbatim>\<open>return\<close> statement, or a member function is called through a
  null pointer.
\<close>

datatype 'a outcome = Returned 'a | Raised Error | Undefined

text \<open>Sequencing: the value of a call is used by the rest of the expression.\<close>

definition obind :: "'a outcome \<Rightarrow> ('a \<Rightarrow> 'b outcome) \<Rightarrow> 'b outcome" where
  "obind c k = (case c of Returned v \<Rightarrow> k v | Raised x \<Rightarrow> Raised x | Undefined \<Rightarrow> Undefined)"

text \<open>
  An expression statement \<^verbatim>\<open>e;\<close> evaluates \<open>e\<close>, throws what \<open>e\<close> throws, discards the
  value and goes on with the rest of the body.
\<close>

definition expr_stmt :: "'a outcome \<Rightarrow> 'b outcome \<Rightarrow> 'b outcome" where
  "expr_stmt c rest = obind c (\<lambda>_. rest)"

text \<open>The closing brace of a body with a non-void return type, reached without \<^verbatim>\<open>return\<close>.\<close>

definition end_of_body :: "'a outcome" where
  "end_of_body = Undefined"

section \<open>Result\<close>

text \<open>
  \<^verbatim>\<open>class Result : public std::variant<Ok<T>, Err<E>>\<close>. The wrappers \<^verbatim>\<open>Ok<T>\<close> and
  \<^verbatim>\<open>Err<E>\<close> (\<^verbatim>\<open>nexus/utils/result/variant.hpp\<close>) carry one payload each, read by
  \<^verbatim>\<open>value()\<close> and \<^verbatim>\<open>error()\<close>; \<^verbatim>\<open>ValueType\<close> is \<open>'t\<close> and \<^verbatim>\<open>ErrorType\<close> is \<open>'e\<close>.
\<close>

datatype ('t, 'e) Result = Ok 't | Err 'e

text \<open>
  \<^verbatim>\<open>std::get_if<Ok<ValueType>>(p)\<close> and \<^verbatim>\<open>std::get_if<Err<ErrorType>>(p)\<close> on a pointer to the
  variant: \<open>None\<close> is the null pointer, as argument and as result. The standard library
  returns null for a null argument and for a variant holding the other alternative.
\<close>

definition get_if_Ok :: "('t, 'e) Result option \<Rightarrow> 't option" where
  "get_if_Ok p = (case p of None \<Rightarrow> None | Some (Ok v) \<Rightarrow> Some v | Some (Err e) \<Rightarrow> None)"

definition get_if_Err :: "('t, 'e) Result option \<Rightarrow> 'e option" where
  "get_if_Err p = (case p of None \<Rightarrow> None | Some (Ok v) \<Rightarrow> None | Some (Err e) \<Rightarrow> Some e)"

definition is_err :: "('t, 'e) Result \<Rightarrow> bool" where
  "is_err r = (get_if_Err (Some r) \<noteq> None)"

definition is_ok :: "('t, 'e) Result \<Rightarrow> bool" where
  "is_ok r = (get_if_Ok (Some r) \<noteq> None)"

text \<open>
  \<^verbatim>\<open>unwrap\<close> and \<^verbatim>\<open>unwrap_err\<close> visit the variant. The adapter \<^verbatim>\<open>to_formattable\<close>
  (\<^verbatim>\<open>nexus/utils/format.hpp\<close>, not among the sources) followed by the formatting of its
  result is the parameter \<open>fe\<close> (for error payloads) respectively \<open>ft\<close> (for values): the
  display string of a payload.
\<close>

definition unwrap :: "('e \<Rightarrow> string) \<Rightarrow> ('t, 'e) Result \<Rightarrow> 't outcome" where
  "unwrap fe r =
     (case r of
        Ok v \<Rightarrow> Returned v
      | Err e \<Rightarrow> Raised (Error_fmt Unwrap ''Result is an error ({})'' [fe e]))"

definition unwrap_err :: "('t \<Rightarrow> string) \<Rightarrow> ('t, 'e) Result \<Rightarrow> 'e outcome" where
  "unwrap_err ft r =
     (case r of
        Err e \<Rightarrow> Returned e
      | Ok v \<Rightarrow> Raised (Error_fmt Unwrap ''Result is not an error ({})'' [ft v]))"

text \<open>\<^verbatim>\<open>expect(std::string &&msg)\<close>.\<close>

definition expect :: "('e \<Rightarrow> string) \<Rightarrow> ('t, 'e) Result \<Rightarrow> string \<Rightarrow> 't outcome" where
  "expect fe r msg = (if is_ok r then unwrap fe r else Raised (Error Unwrap msg))"

text \<open>
  \<^verbatim>\<open>expect(const std::string &msg)\<close>: the body is the single expression statement
  \<^verbatim>\<open>expect(std::string(msg));\<close> and then ends.
\<close>

definition expect_cref :: "('e \<Rightarrow> string) \<Rightarrow> ('t, 'e) Result \<Rightarrow> string \<Rightarrow> 't outcome" where
  "expect_cref fe r msg = expr_stmt (expect fe r msg) end_of_body"

text \<open>\<^verbatim>\<open>expect_err(std::string &&msg)\<close>.\<close>

definition expect_err :: "('t \<Rightarrow> string) \<Rightarrow> ('t, 'e) Result \<Rightarrow> string \<Rightarrow> 'e outcome" where
  "expect_err ft r msg = (if is_err r then unwrap_err ft r else Raised (Error Unwrap msg))"

text \<open>\<^verbatim>\<open>expect_err(const std::string &msg)\<close>: \<^verbatim>\<open>return expect_err(std::string(msg));\<close>.\<close>

definition expect_err_cref :: "('t \<Rightarrow> string) \<Rightarrow> ('t, 'e) Result \<Rightarrow> string \<Rightarrow> 'e outcome" where
  "expect_err_cref ft r msg = expect_err ft r msg"

text \<open>\<^verbatim>\<open>unwrap_or(ValueType &&value)\<close>: a visit that returns in both alternatives.\<close>

definition unwrap_or :: "('t, 'e) Result \<Rightarrow> 't \<Rightarrow> 't outcome" where
  "unwrap_or r val = (case r of Ok v \<Rightarrow> Returned v | Err e \<Rightarrow> Returned val)"

text \<open>
  \<^verbatim>\<open>unwrap_or(const ValueType &value)\<close>: \<^verbatim>\<open>return unwrap_or(ValueType(value));\<close>, the copy
  of the argument handed to the overload above.
\<close>

definition unwrap_or_cref :: "('t, 'e) Result \<Rightarrow> 't \<Rightarrow> 't outcome" where
  "unwrap_or_cref r val = unwrap_or r val"

text \<open>\<^verbatim>\<open>map(conv)\<close> and \<^verbatim>\<open>map_err(conv)\<close>; \<open>conv\<close> is a pure function of the payload.\<close>

definition map_res ::
  "('e \<Rightarrow> string) \<Rightarrow> ('t \<Rightarrow> string) \<Rightarrow> ('t, 'e) Result \<Rightarrow> ('t \<Rightarrow> 'u) \<Rightarrow> ('u, 'e) Result outcome"
where
  "map_res fe ft r conv =
     (if is_ok r then obind (unwrap fe r) (\<lambda>v. Returned (Ok (conv v)))
      else obind (unwrap_err ft r) (\<lambda>e. Returned (Err e)))"

definition map_err ::
  "('e \<Rightarrow> string) \<Rightarrow> ('t \<Rightarrow> string) \<Rightarrow> ('t, 'e) Result \<Rightarrow> ('e \<Rightarrow> 'f) \<Rightarrow> ('t, 'f) Result outcome"
where
  "map_err fe ft r conv =
     (if is_err r then obind (unwrap_err ft r) (\<lambda>e. Returned (Err (conv e)))
      else obind (unwrap fe r) (\<lambda>v. Returned (Ok v)))"

text \<open>
  \<^verbatim>\<open>flattern()\<close>, available when the value type is itself a Result with the same error
  type.
\<close>

definition flattern ::
  "('e \<Rightarrow> string) \<Rightarrow> (('u, 'e) Result \<Rightarrow> string) \<Rightarrow> (('u, 'e) Result, 'e) Result
     \<Rightarrow> ('u, 'e) Result outcome"
where
  "flattern fe ft r =
     (if is_err r then obind (unwrap_err ft r) (\<lambda>e. Returned (Err e))
      else unwrap fe r)"

section \<open>Iterators over a Result\<close>

text \<open>
  An iterator holds a pointer to a Result object, or null. \<open>addr\<close> is the address of a
  Result object, the store gives the current value of the object at each address, and
  \<open>None\<close> is the null pointer.
\<close>

type_synonym addr = nat

type_synonym ('t, 'e) store = "addr \<Rightarrow> ('t, 'e) Result"

datatype Iterator = Iterator (it_result: "addr option")

datatype ErrorIterator = ErrorIterator (eit_result: "addr option")

text \<open>
  The variant that \<^verbatim>\<open>&_result->_base()\<close> points to. \<^verbatim>\<open>_base()\<close> is a member function
  returning \<^verbatim>\<open>*static_cast<VariantType *>(this)\<close>, and \<^verbatim>\<open>operator*\<close> calls it on \<^verbatim>\<open>_result\<close>
  without a null test. For a pointer to a Result object the call gives its variant. For a
  null \<^verbatim>\<open>_result\<close> it is a member call through a null pointer, which has no defined
  behaviour; \<^verbatim>\<open>std::get_if\<close> is entered only after it.
\<close>

definition base_of :: "('t, 'e) store \<Rightarrow> addr option \<Rightarrow> ('t, 'e) Result option outcome"
where
  "base_of st p = (case p of None \<Rightarrow> Undefined | Some a \<Rightarrow> Returned (Some (st a)))"

text \<open>\<^verbatim>\<open>Iterator(Result &result)\<close> for the object at address \<open>a\<close>, and \<^verbatim>\<open>Iterator()\<close>.\<close>

definition Iterator_of :: "('t, 'e) store \<Rightarrow> addr \<Rightarrow> Iterator" where
  "Iterator_of st a = Iterator (if is_err (st a) then None else Some a)"

definition Iterator_default :: Iterator where
  "Iterator_default = Iterator None"

text \<open>\<^verbatim>\<open>operator*\<close>: the reference returned is modelled by the payload it refers to.\<close>

definition Iterator_deref :: "('t, 'e) store \<Rightarrow> Iterator \<Rightarrow> 't outcome" where
  "Iterator_deref st it =
     obind (base_of st (it_result it))
       (\<lambda>p. case get_if_Ok p of
               Some v \<Rightarrow> Returned v
             | None \<Rightarrow> Raised (Error Unwrap ''Result cannot be dereferenced''))"

text \<open>
  \<^verbatim>\<open>operator++()\<close> gives the iterator after the assignment; \<^verbatim>\<open>operator++(int)\<close> gives the
  copy it returns together with the iterator after the increment.
\<close>

definition Iterator_incr :: "Iterator \<Rightarrow> Iterator" where
  "Iterator_incr it = Iterator None"

definition Iterator_post_incr :: "Iterator \<Rightarrow> Iterator \<times> Iterator" where
  "Iterator_post_incr it = (let tmp = it in (tmp, Iterator_incr it))"

definition Iterator_eq :: "Iterator \<Rightarrow> Iterator \<Rightarrow> bool" where
  "Iterator_eq it other = (it_result it = it_result other)"

definition ErrorIterator_of :: "('t, 'e) store \<Rightarrow> addr \<Rightarrow> ErrorIterator" where
  "ErrorIterator_of st a = ErrorIterator (if is_ok (st a) then None else Some a)"

definition ErrorIterator_default :: ErrorIterator where
  "ErrorIterator_default = ErrorIterator None"

definition ErrorIterator_deref :: "('t, 'e) store \<Rightarrow> ErrorIterator \<Rightarrow> 'e outcome" where
  "ErrorIterator_deref st it =
     obind (base_of st (eit_result it))
       (\<lambda>p. case get_if_Err p of
               Some e \<Rightarrow> Returned e
             | None \<Rightarrow> Raised (Error Unwrap ''Result cannot be dereferenced''))"

definition ErrorIterator_incr :: "ErrorIterator \<Rightarrow> ErrorIterator" where
  "ErrorIterator_incr it = ErrorIterator None"

definition ErrorIterator_post_incr :: "ErrorIterator \<Rightarrow> ErrorIterator \<times> ErrorIterator" where
  "ErrorIterator_post_incr it = (let tmp = it in (tmp, ErrorIterator_incr it))"

definition ErrorIterator_eq :: "ErrorIterator \<Rightarrow> ErrorIterator \<Rightarrow> bool" where
  "ErrorIterator_eq it other = (eit_result it = eit_result other)"

text \<open>\<^verbatim>\<open>begin()\<close>, \<^verbatim>\<open>end()\<close>, \<^verbatim>\<open>ebegin()\<close> and \<^verbatim>\<open>eend()\<close> of the Result at address \<open>a\<close>.\<close>

definition Result_begin :: "('t, 'e) store \<Rightarrow> addr \<Rightarrow> Iterator" where
  "Result_begin st a = Iterator_of st a"

definition Result_end :: "('t, 'e) store \<Rightarrow> addr \<Rightarrow> Iterator" where
  "Result_end st a = Iterator_default"

definition Result_ebegin :: "('t, 'e) store \<Rightarrow> addr \<Rightarrow> ErrorIterator" where
  "Result_ebegin st a = ErrorIterator_of st a"

definition Result_eend :: "('t, 'e) store \<Rightarrow> addr \<Rightarrow> ErrorIterator" where
  "Result_eend st a = ErrorIterator_default"

text \<open>\<^verbatim>\<open>ErrorEnumerator\<close> keeps the address of its Result and forwards to it.\<close>

datatype ErrorEnumerator = ErrorEnumerator (en_result: addr)

definition error_enumerator :: "addr \<Rightarrow> ErrorEnumerator" where
  "error_enumerator a = ErrorEnumerator a"

definition ErrorEnumerator_begin :: "('t, 'e) store \<Rightarrow> ErrorEnumerator \<Rightarrow> ErrorIterator" where
  "ErrorEnumerator_begin st en = Result_ebegin st (en_result en)"

definition ErrorEnumerator_end :: "('t, 'e) store \<Rightarrow> ErrorEnumerator \<Rightarrow> ErrorIterator" where
  "ErrorEnumerator_end st en = Result_eend st (en_result en)"

text \<open>
  Iteration from a first iterator to a stop iterator, as the range-based \<^verbatim>\<open>for\<close> of
  \<^verbatim>\<open>inspect\<close> and \<^verbatim>\<open>inspect_err\<close> runs it: while the iterator differs from the stop iterator,
  dereference it, then increment it. The result is the sequence of the elements seen.
\<close>

function Iterator_loop :: "('t, 'e) store \<Rightarrow> Iterator \<Rightarrow> Iterator \<Rightarrow> 't list outcome" where
  "Iterator_loop st it stop =
     (if Iterator_eq it stop then Returned []
      else (case Iterator_deref st it of
              Returned v \<Rightarrow>
                (case Iterator_loop st (Iterator_incr it) stop of
                   Returned vs \<Rightarrow> Returned (v # vs)
                 | Raised x \<Rightarrow> Raised x
                 | Undefined \<Rightarrow> Undefined)
            | Raised x \<Rightarrow> Raised x
            | Undefined \<Rightarrow> Undefined))"
  by pat_completeness auto
termination
  by (relation "measure (\<lambda>(st, it, stop). case it_result it of None \<Rightarrow> 0 | Some a \<Rightarrow> 1)")
     (auto simp: Iterator_deref_def Iterator_incr_def base_of_def obind_def
           split: option.splits)

function ErrorIterator_loop ::
  "('t, 'e) store \<Rightarrow> ErrorIterator \<Rightarrow> ErrorIterator \<Rightarrow> 'e list outcome"
where
  "ErrorIterator_loop st it stop =
     (if ErrorIterator_eq it stop then Returned []
      else (case ErrorIterator_deref st it of
              Returned v \<Rightarrow>
                (case ErrorIterator_loop st (ErrorIterator_incr it) stop of
                   Returned vs \<Rightarrow> Returned (v # vs)
                 | Raised x \<Rightarrow> Raised x
                 | Undefined \<Rightarrow> Undefined)
            | Raised x \<Rightarrow> Raised x
            | Undefined \<Rightarrow> Undefined))"
  by pat_completeness auto
termination
  by (relation "measure (\<lambda>(st, it, stop). case eit_result it of None \<Rightarrow> 0 | Some a \<Rightarrow> 1)")
     (auto simp: ErrorIterator_deref_def ErrorIterator_incr_def base_of_def obind_def
           split: option.splits)

definition Result_iterate :: "('t, 'e) store \<Rightarrow> addr \<Rightarrow> 't list outcome" where
  "Result_iterate st a = Iterator_loop st (Result_begin st a) (Result_end st a)"

definition Result_iterate_errors :: "('t, 'e) store \<Rightarrow> addr \<Rightarrow> 'e list outcome" where
  "Result_iterate_errors st a = ErrorIterator_loop st (Result_ebegin st a) (Result_eend st a)"

definition ErrorEnumerator_iterate :: "('t, 'e) store \<Rightarrow> addr \<Rightarrow> 'e list outcome" where
  "ErrorEnumerator_iterate st a =
     (let en = error_enumerator a
      in ErrorIterator_loop st (ErrorEnumerator_begin st en) (ErrorEnumerator_end st en))"

section \<open>TaskQueue\<close>

datatype TaskPolicy = FIFO | LIFO

text \<open>
  Modelled from the spec: \<^verbatim>\<open>detail::TaskQueueInner<R, P>\<close> lives in
  \<^verbatim>\<open>nexus/private/exec/queue.hpp\<close>, which is not among the sources. The spec gives it as
  "a sequence where push appends and pop removes from front (FIFO) or back (LIFO)",
  created empty. The container is the list of its tasks, oldest first. The spec does not
  say what \<^verbatim>\<open>pop\<close> does on an empty container; \<open>Inner_pop\<close> answers \<open>None\<close> there.
\<close>

type_synonym 'task TaskQueueInner = "'task list"

definition Inner_push :: "TaskPolicy \<Rightarrow> 'task \<Rightarrow> 'task TaskQueueInner \<Rightarrow> 'task TaskQueueInner"
where
  "Inner_push P t i = i @ [t]"

definition Inner_size :: "'task TaskQueueInner \<Rightarrow> nat" where
  "Inner_size i = length i"

fun Inner_pop ::
  "TaskPolicy \<Rightarrow> 'task TaskQueueInner \<Rightarrow> ('task \<times> 'task TaskQueueInner) option"
where
  "Inner_pop P [] = None"
| "Inner_pop FIFO (t # i) = Some (t, i)"
| "Inner_pop LIFO (t # i) = Some (last (t # i), butlast (t # i))"

text \<open>
  The queue object. The mutex and the condition variable hold no data; what they do is
  in the operations below: every operation runs under the lock, and a waiting thread
  gives the lock up, so that other threads change the container while it waits.
\<close>

record 'task TaskQueue =
  inner :: "'task TaskQueueInner"

definition TaskQueue_new :: "'task TaskQueue" where
  "TaskQueue_new = \<lparr>inner = []\<rparr>"

text \<open>
  What other threads do to the container while the caller waits on the condition
  variable: a list of completed pushes and pops. A pop of another thread on an empty
  container does not complete, and leaves the container as it is.
\<close>

datatype 'task other_op = OtherPush 'task | OtherPop

fun others_run ::
  "TaskPolicy \<Rightarrow> 'task other_op list \<Rightarrow> 'task TaskQueueInner \<Rightarrow> 'task TaskQueueInner"
where
  "others_run P [] i = i"
| "others_run P (OtherPush t # ops) i = others_run P ops (Inner_push P t i)"
| "others_run P (OtherPop # ops) i =
     others_run P ops (case Inner_pop P i of None \<Rightarrow> i | Some (t, i') \<Rightarrow> i')"

text \<open>
  \<^verbatim>\<open>_cond.wait(guard, pred)\<close> is \<^verbatim>\<open>while (!pred()) wait(guard);\<close>. Each element of
  \<open>wakes\<close> is one return of the inner wait, with what the other threads did before it.
  When no wake-up is left and the predicate is false, the caller waits forever: \<open>None\<close>.
\<close>

fun cv_wait ::
  "TaskPolicy \<Rightarrow> 'task other_op list list \<Rightarrow> 'task TaskQueueInner
     \<Rightarrow> 'task TaskQueueInner option"
where
  "cv_wait P [] i = (if Inner_size i > 0 then Some i else None)"
| "cv_wait P (w # wakes) i =
     (if Inner_size i > 0 then Some i else cv_wait P wakes (others_run P w i))"

text \<open>
  \<^verbatim>\<open>_cond.wait_for(guard, timeout, pred)\<close> is
  \<^verbatim>\<open>while (!pred()) if (wait_until(guard, deadline) == timeout) return pred(); return true;\<close>.
  \<open>wakes\<close> are the wake-ups before the deadline and \<open>final\<close> is what the other threads
  did before the wake-up at the deadline. The result is the value of the predicate and
  the container as the caller finds it.
\<close>

fun cv_wait_for ::
  "TaskPolicy \<Rightarrow> 'task other_op list list \<Rightarrow> 'task other_op list \<Rightarrow> 'task TaskQueueInner
     \<Rightarrow> bool \<times> 'task TaskQueueInner"
where
  "cv_wait_for P [] final i =
     (if Inner_size i > 0 then (True, i)
      else (let i' = others_run P final i in (Inner_size i' > 0, i')))"
| "cv_wait_for P (w # wakes) final i =
     (if Inner_size i > 0 then (True, i) else cv_wait_for P wakes final (others_run P w i))"

text \<open>
  The result of a queue operation: it returns, or the caller waits forever, or the
  container is asked for a task it does not hold.
\<close>

datatype 'a qresult = Done 'a | Blocked | NoTask

definition push :: "TaskPolicy \<Rightarrow> 'task \<Rightarrow> 'task TaskQueue \<Rightarrow> 'task TaskQueue" where
  "push P task q = q\<lparr>inner := Inner_push P task (inner q)\<rparr>"

definition pop ::
  "TaskPolicy \<Rightarrow> 'task other_op list list \<Rightarrow> 'task TaskQueue
     \<Rightarrow> ('task \<times> 'task TaskQueue) qresult"
where
  "pop P wakes q =
     (case cv_wait P wakes (inner q) of
        None \<Rightarrow> Blocked
      | Some i \<Rightarrow>
          (case Inner_pop P i of
             None \<Rightarrow> NoTask
           | Some (t, i') \<Rightarrow> Done (t, q\<lparr>inner := i'\<rparr>)))"

definition pop_for ::
  "TaskPolicy \<Rightarrow> 'task other_op list list \<Rightarrow> 'task other_op list \<Rightarrow> 'task TaskQueue
     \<Rightarrow> ('task option \<times> 'task TaskQueue) qresult"
where
  "pop_for P wakes final q =
     (case cv_wait_for P wakes final (inner q) of
        (status, i) \<Rightarrow>
          if \<not> status then Done (None, q\<lparr>inner := i\<rparr>)
          else (case Inner_pop P i of
                  None \<Rightarrow> NoTask
                | Some (t, i') \<Rightarrow> Done (Some t, q\<lparr>inner := i'\<rparr>)))"

definition size_q :: "'task TaskQueue \<Rightarrow> nat" where
  "size_q q = Inner_size (inner q)"

text \<open>
  Serial use: one thread pushes the tasks \<open>ts\<close> one after the other, and pops \<open>n\<close> times
  with no other thread at work (no wake-ups).
\<close>

fun pushes :: "TaskPolicy \<Rightarrow> 'task list \<Rightarrow> 'task TaskQueue \<Rightarrow> 'task TaskQueue" where
  "pushes P [] q = q"
| "pushes P (t # ts) q = pushes P ts (push P t q)"

fun pops ::
  "TaskPolicy \<Rightarrow> nat \<Rightarrow> 'task TaskQueue \<Rightarrow> ('task list \<times> 'task TaskQueue) qresult"
where
  "pops P 0 q = Done ([], q)"
| "pops P (Suc n) q =
     (case pop P [] q of
        Done (t, q') \<Rightarrow>
          (case pops P n q' of
             Done (ts, q'') \<Rightarrow> Done (t # ts, q'')
           | Blocked \<Rightarrow> Blocked
           | NoTask \<Rightarrow> NoTask)
      | Blocked \<Rightarrow> Blocked
      | NoTask \<Rightarrow> NoTask)"

text \<open>
  The containers that the predicate of a timed wait looks at: the one at the call, the
  one after each wake-up, and the one at the deadline. The wait "times out while the
  queue is still empty" when each of them is empty.
\<close>

fun seen_by_wait ::
  "TaskPolicy \<Rightarrow> 'task other_op list list \<Rightarrow> 'task other_op list \<Rightarrow> 'task TaskQueueInner
     \<Rightarrow> 'task TaskQueueInner list"
where
  "seen_by_wait P [] final i = [i, others_run P final i]"
| "seen_by_wait P (w # wakes) final i = i # seen_by_wait P wakes final (others_run P w i)"

definition still_empty ::
  "TaskPolicy \<Rightarrow> 'task other_op list list \<Rightarrow> 'task other_op list \<Rightarrow> 'task TaskQueueInner \<Rightarrow> bool"
where
  "still_empty P wakes final i = list_all (\<lambda>c. c = []) (seen_by_wait P wakes final i)"

section \<open>Properties of Result\<close>

declare Iterator_loop.simps [simp del] ErrorIterator_loop.simps [simp del]

lemma is_ok_simps: "is_ok (Ok v) = True" "is_ok (Err e) = False"
  by (simp_all add: is_ok_def get_if_Ok_def)

lemma is_err_simps: "is_err (Ok v) = False" "is_err (Err e) = True"
  by (simp_all add: is_err_def get_if_Err_def)

lemma is_ok_xor_is_err: "is_ok r \<noteq> is_err r"
  by (cases r) (simp_all add: is_ok_simps is_err_simps)

subsection \<open>expect and expect\_err\<close>

text \<open>
  The overloads that take the message as an rvalue, and both overloads of
  \<^verbatim>\<open>expect_err\<close>, return the payload of the matching alternative and throw an
  \<^verbatim>\<open>Unwrap\<close> error with the caller's message on the other one.
\<close>

lemma expect_moved_message:
  "expect fe (Ok v) m = Returned v"
  "expect fe (Err e) m = Raised (Error Unwrap m)"
  by (simp_all add: expect_def is_ok_simps unwrap_def)

lemma expect_err_both_overloads:
  "expect_err ft (Err e) m = Returned e"
  "expect_err ft (Ok v) m = Raised (Error Unwrap m)"
  "expect_err_cref ft (Err e) m = Returned e"
  "expect_err_cref ft (Ok v) m = Raised (Error Unwrap m)"
  by (simp_all add: expect_err_cref_def expect_err_def is_err_simps unwrap_err_def)

text \<open>
  The overload of \<^verbatim>\<open>expect\<close> that takes the message by const reference throws as the
  other one does on \<^verbatim>\<open>Err\<close>; on \<^verbatim>\<open>Ok\<close> the value of the inner call is dropped and the
  body ends without returning anything.
\<close>

lemma expect_copied_message:
  "expect_cref fe (Err e) m = Raised (Error Unwrap m)"
  "expect_cref fe (Ok v) m = Undefined"
  by (simp_all add: expect_cref_def expr_stmt_def obind_def end_of_body_def
      expect_moved_message)

text \<open>
  C1. The claim asks each overload of \<^verbatim>\<open>expect\<close> and \<^verbatim>\<open>expect_err\<close> to return the payload
  of the matching alternative. On the Result \<^verbatim>\<open>Ok(3)\<close> with the message \<^verbatim>\<open>"boom"\<close> passed
  as a const lvalue, \<^verbatim>\<open>expect\<close> does not return \<open>3\<close>: control reaches the end of the body
  and no value is returned.
\<close>

theorem expect_cref_Ok_falls_off_end:
  "expect_cref (\<lambda>s. s) (Ok 3 :: (int, string) Result) ''boom'' = Undefined
   \<and> expect_cref (\<lambda>s. s) (Ok 3 :: (int, string) Result) ''boom'' \<noteq> Returned 3"
  by (simp add: expect_cref_def expr_stmt_def obind_def end_of_body_def expect_def is_ok_def
      get_if_Ok_def unwrap_def)

subsection \<open>Dereferencing an iterator\<close>

text \<open>
  An iterator that points to a Result object returns the payload of the alternative it
  iterates over, and throws an \<^verbatim>\<open>Unwrap\<close> error when the object holds the other
  alternative by now. This is the path on which the \<^verbatim>\<open>throw\<close> statement is reached.
\<close>

lemma Iterator_deref_pointing:
  "Iterator_deref st (Iterator (Some a)) =
     (case st a of
        Ok v \<Rightarrow> Returned v
      | Err e \<Rightarrow> Raised (Error Unwrap ''Result cannot be dereferenced''))"
  by (simp add: Iterator_deref_def base_of_def obind_def get_if_Ok_def split: Result.splits)

lemma ErrorIterator_deref_pointing:
  "ErrorIterator_deref st (ErrorIterator (Some a)) =
     (case st a of
        Err e \<Rightarrow> Returned e
      | Ok v \<Rightarrow> Raised (Error Unwrap ''Result cannot be dereferenced''))"
  by (simp add: ErrorIterator_deref_def base_of_def obind_def get_if_Err_def
      split: Result.splits)

text \<open>
  An end iterator holds the null pointer, whatever it was before: default-constructed,
  returned by \<^verbatim>\<open>end()\<close> or \<^verbatim>\<open>eend()\<close>, or incremented. Dereferencing it calls
  \<^verbatim>\<open>_base()\<close> through the null pointer, for every store.
\<close>

lemma end_iterator_deref_undefined:
  "Iterator_deref st Iterator_default = Undefined"
  "Iterator_deref st (Result_end st a) = Undefined"
  "Iterator_deref st (Iterator_incr it) = Undefined"
  "Iterator_deref st (snd (Iterator_post_incr it)) = Undefined"
  "ErrorIterator_deref st ErrorIterator_default = Undefined"
  "ErrorIterator_deref st (Result_eend st a) = Undefined"
  "ErrorIterator_deref st (ErrorIterator_incr eit) = Undefined"
  "ErrorIterator_deref st (snd (ErrorIterator_post_incr eit)) = Undefined"
  by (simp_all add: Iterator_deref_def Iterator_default_def Result_end_def Iterator_incr_def
      Iterator_post_incr_def ErrorIterator_deref_def ErrorIterator_default_def Result_eend_def
      ErrorIterator_incr_def ErrorIterator_post_incr_def base_of_def obind_def)

text \<open>
  C2. The claim asks the dereference of an end iterator to throw an \<^verbatim>\<open>Unwrap\<close> error and
  to do nothing else. With the Result \<^verbatim>\<open>Ok(3)\<close> at address \<open>0\<close>, the dereference of a
  default-constructed value iterator, of the value iterator \<^verbatim>\<open>begin()\<close> after an
  increment, and of a default-constructed error iterator does not throw that error: each
  calls \<^verbatim>\<open>_base()\<close> through a null \<^verbatim>\<open>_result\<close>, which has no defined behaviour.
\<close>

theorem end_iterator_deref_null_call:
  "Iterator_deref (\<lambda>_. Ok 3 :: (int, string) Result) Iterator_default = Undefined
   \<and> Iterator_deref (\<lambda>_. Ok 3 :: (int, string) Result) Iterator_default
       \<noteq> Raised (Error Unwrap ''Result cannot be dereferenced'')
   \<and> Iterator_deref (\<lambda>_. Ok 3 :: (int, string) Result)
         (Iterator_incr (Result_begin (\<lambda>_. Ok 3 :: (int, string) Result) 0)) = Undefined
   \<and> ErrorIterator_deref (\<lambda>_. Ok 3 :: (int, string) Result) ErrorIterator_default = Undefined
   \<and> ErrorIterator_deref (\<lambda>_. Ok 3 :: (int, string) Result) ErrorIterator_default
       \<noteq> Raised (Error Unwrap ''Result cannot be dereferenced'')"
  by (simp add: Iterator_deref_def Iterator_default_def Iterator_incr_def
      ErrorIterator_deref_def ErrorIterator_default_def base_of_def obind_def)

subsection \<open>unwrap\_or with a fallback passed by const reference\<close>

text \<open>
  C3, as claimed, fails: the claim says that the overload of \<^verbatim>\<open>unwrap_or\<close> taking the
  fallback by const reference never returns it. On \<^verbatim>\<open>Err("bad")\<close> with the fallback \<open>7\<close>
  the overload returns \<open>7\<close>.
\<close>

theorem unwrap_or_cref_counterexample:
  "unwrap_or_cref (Err ''bad'' :: (int, string) Result) 7 = Returned 7
   \<and> unwrap_or_cref (Err ''bad'' :: (int, string) Result) 7 \<noteq> Undefined"
  by (simp add: unwrap_or_cref_def unwrap_or_def)

text \<open>
  C3, amended: the overload of \<^verbatim>\<open>unwrap_or\<close> taking the fallback by const reference
  returns what the rvalue overload returns on a copy of its argument: the fallback on
  \<^verbatim>\<open>Err\<close>, the value on \<^verbatim>\<open>Ok\<close>.
\<close>

theorem unwrap_or_cref_returns_fallback:
  "unwrap_or_cref (Err e) d = Returned d
   \<and> unwrap_or_cref (Ok v) d = Returned v
   \<and> unwrap_or_cref r d = unwrap_or r d"
  by (simp add: unwrap_or_cref_def unwrap_or_def)

subsection \<open>unwrap and unwrap\_err\<close>

lemma format_one_placeholder:
  "format ''Result is an error ({})'' [s] = ''Result is an error ('' @ s @ '')''"
  "format ''Result is not an error ({})'' [s] = ''Result is not an error ('' @ s @ '')''"
  by simp_all

lemma unwrap_messages:
  "unwrap fe (Err e) = Raised (Error Unwrap (''Result is an error ('' @ fe e @ '')''))"
  "unwrap_err ft (Ok v) = Raised (Error Unwrap (''Result is not an error ('' @ ft v @ '')''))"
  by (simp_all add: unwrap_def unwrap_err_def Error_fmt_def)

text \<open>
  C4. \<^verbatim>\<open>unwrap\<close> returns the value of \<^verbatim>\<open>Ok(v)\<close> and \<^verbatim>\<open>unwrap_err\<close> returns the error of
  \<^verbatim>\<open>Err(e)\<close>; on the other alternative each throws an \<^verbatim>\<open>Unwrap\<close> error whose message
  contains the display string of the payload found (\<open>fe e\<close>, respectively \<open>ft v\<close>).
\<close>

theorem unwrap_laws:
  "unwrap fe (Ok v) = Returned v
   \<and> unwrap_err ft (Err e) = Returned e
   \<and> (\<exists>msg. unwrap fe (Err e) = Raised (Error Unwrap msg) \<and> sublist (fe e) msg)
   \<and> (\<exists>msg. unwrap_err ft (Ok v) = Raised (Error Unwrap msg) \<and> sublist (ft v) msg)"
proof -
  have ok: "unwrap fe (Ok v) = Returned v"
    by (simp add: unwrap_def)
  have er: "unwrap_err ft (Err e) = Returned e"
    by (simp add: unwrap_err_def)
  have "sublist (fe e) (''Result is an error ('' @ fe e @ '')'')"
    unfolding sublist_def by blast
  with unwrap_messages(1) [of fe e]
  have m1: "\<exists>msg. unwrap fe (Err e) = Raised (Error Unwrap msg) \<and> sublist (fe e) msg"
    by blast
  have "sublist (ft v) (''Result is not an error ('' @ ft v @ '')'')"
    unfolding sublist_def by blast
  with unwrap_messages(2) [of ft v]
  have m2: "\<exists>msg. unwrap_err ft (Ok v) = Raised (Error Unwrap msg) \<and> sublist (ft v) msg"
    by blast
  from ok er m1 m2 show ?thesis by blast
qed

subsection \<open>map, map\_err and flattern\<close>

text \<open>
  C5. \<^verbatim>\<open>map(f)\<close> turns \<^verbatim>\<open>Ok(v)\<close> into \<^verbatim>\<open>Ok(f(v))\<close> and leaves \<^verbatim>\<open>Err(e)\<close> as it is;
  \<^verbatim>\<open>map_err(g)\<close> turns \<^verbatim>\<open>Err(e)\<close> into \<^verbatim>\<open>Err(g(e))\<close> and leaves \<^verbatim>\<open>Ok(v)\<close> as it is.
\<close>

theorem map_laws:
  "map_res fe ft (Ok v) f = Returned (Ok (f v))
   \<and> map_res fe ft (Err e) f = Returned (Err e)
   \<and> map_err fe ft (Err e) g = Returned (Err (g e))
   \<and> map_err fe ft (Ok v) g = Returned (Ok v)"
  by (simp add: map_res_def map_err_def is_ok_simps is_err_simps unwrap_def unwrap_err_def
      obind_def)

text \<open>
  C6. \<^verbatim>\<open>flattern\<close> on a Result of Results: \<^verbatim>\<open>Ok(Ok(v))\<close> gives \<^verbatim>\<open>Ok(v)\<close>, \<^verbatim>\<open>Ok(Err(e))\<close>
  gives \<^verbatim>\<open>Err(e)\<close>, and an outer \<^verbatim>\<open>Err(e)\<close> gives \<^verbatim>\<open>Err(e)\<close>.
\<close>

theorem flattern_laws:
  "flattern fe ft (Ok (Ok v)) = Returned (Ok v)
   \<and> flattern fe ft (Ok (Err e)) = Returned (Err e)
   \<and> flattern fe ft (Err e) = Returned (Err e)"
  by (simp add: flattern_def is_err_simps unwrap_def unwrap_err_def obind_def)

section \<open>Properties of the iterators\<close>

lemma Iterator_loop_stop: "Iterator_loop st (Iterator None) (Iterator None) = Returned []"
  by (subst Iterator_loop.simps) (simp add: Iterator_eq_def)

lemma Iterator_loop_single:
  "get_if_Ok (Some (st a)) = Some v \<Longrightarrow>
   Iterator_loop st (Iterator (Some a)) (Iterator None) = Returned [v]"
  by (subst Iterator_loop.simps)
     (simp add: Iterator_eq_def Iterator_deref_def base_of_def obind_def Iterator_incr_def
        Iterator_loop_stop)

lemma ErrorIterator_loop_stop:
  "ErrorIterator_loop st (ErrorIterator None) (ErrorIterator None) = Returned []"
  by (subst ErrorIterator_loop.simps) (simp add: ErrorIterator_eq_def)

lemma ErrorIterator_loop_single:
  "get_if_Err (Some (st a)) = Some e \<Longrightarrow>
   ErrorIterator_loop st (ErrorIterator (Some a)) (ErrorIterator None) = Returned [e]"
  by (subst ErrorIterator_loop.simps)
     (simp add: ErrorIterator_eq_def ErrorIterator_deref_def base_of_def obind_def
        ErrorIterator_incr_def ErrorIterator_loop_stop)

lemma Result_iterate_eq:
  "Result_iterate st a = Returned (case st a of Ok v \<Rightarrow> [v] | Err e \<Rightarrow> [])"
proof (cases "st a")
  case (Ok v)
  then have "get_if_Ok (Some (st a)) = Some v"
    by (simp add: get_if_Ok_def)
  from Iterator_loop_single [of st a v, OF this] Ok show ?thesis
    by (simp add: Result_iterate_def Result_begin_def Result_end_def Iterator_of_def
        Iterator_default_def is_err_simps)
next
  case (Err e)
  then show ?thesis
    by (simp add: Result_iterate_def Result_begin_def Result_end_def Iterator_of_def
        Iterator_default_def is_err_simps Iterator_loop_stop)
qed

lemma Result_iterate_errors_eq:
  "Result_iterate_errors st a = Returned (case st a of Ok v \<Rightarrow> [] | Err e \<Rightarrow> [e])"
proof (cases "st a")
  case (Ok v)
  then show ?thesis
    by (simp add: Result_iterate_errors_def Result_ebegin_def Result_eend_def
        ErrorIterator_of_def ErrorIterator_default_def is_ok_simps ErrorIterator_loop_stop)
next
  case (Err e)
  then have "get_if_Err (Some (st a)) = Some e"
    by (simp add: get_if_Err_def)
  from ErrorIterator_loop_single [of st a e, OF this] Err show ?thesis
    by (simp add: Result_iterate_errors_def Result_ebegin_def Result_eend_def
        ErrorIterator_of_def ErrorIterator_default_def is_ok_simps)
qed

lemma ErrorEnumerator_iterate_eq:
  "ErrorEnumerator_iterate st a = Result_iterate_errors st a"
  by (simp add: ErrorEnumerator_iterate_def Result_iterate_errors_def error_enumerator_def
      ErrorEnumerator_begin_def ErrorEnumerator_end_def)

text \<open>
  C7. For a Result object at address \<open>a\<close>: iterating it from \<^verbatim>\<open>begin()\<close> to \<^verbatim>\<open>end()\<close> gives
  exactly \<open>[v]\<close> when it holds \<^verbatim>\<open>Ok(v)\<close> and the empty sequence when it holds \<^verbatim>\<open>Err(e)\<close>;
  iterating its errors, from \<^verbatim>\<open>ebegin()\<close> to \<^verbatim>\<open>eend()\<close> or through
  \<^verbatim>\<open>error_enumerator()\<close>, gives exactly \<open>[e]\<close> when it holds \<^verbatim>\<open>Err(e)\<close> and the empty
  sequence when it holds \<^verbatim>\<open>Ok(v)\<close>.
\<close>

theorem iteration_law:
  "Result_iterate (st(a := Ok v)) a = Returned [v]
   \<and> Result_iterate (st(a := Err e)) a = Returned []
   \<and> Result_iterate_errors (st(a := Err e)) a = Returned [e]
   \<and> Result_iterate_errors (st(a := Ok v)) a = Returned []
   \<and> ErrorEnumerator_iterate (st(a := Err e)) a = Returned [e]
   \<and> ErrorEnumerator_iterate (st(a := Ok v)) a = Returned []"
  by (simp add: Result_iterate_eq Result_iterate_errors_eq ErrorEnumerator_iterate_eq)

text \<open>
  C10. Incrementing is a total operation without a throwing path. After a pre-increment
  or a post-increment the iterator compares equal to a default-constructed one (the
  post-increment hands back the iterator as it was), and incrementing an end iterator
  leaves it an end iterator. The same holds for the error iterator.
\<close>

theorem increment_reaches_end:
  "Iterator_eq (Iterator_incr it) Iterator_default
   \<and> Iterator_eq (snd (Iterator_post_incr it)) Iterator_default
   \<and> fst (Iterator_post_incr it) = it
   \<and> Iterator_incr Iterator_default = Iterator_default
   \<and> Iterator_incr (Iterator_incr it) = Iterator_incr it
   \<and> ErrorIterator_eq (ErrorIterator_incr eit) ErrorIterator_default
   \<and> ErrorIterator_eq (snd (ErrorIterator_post_incr eit)) ErrorIterator_default
   \<and> fst (ErrorIterator_post_incr eit) = eit
   \<and> ErrorIterator_incr ErrorIterator_default = ErrorIterator_default
   \<and> ErrorIterator_incr (ErrorIterator_incr eit) = ErrorIterator_incr eit"
  by (simp add: Iterator_eq_def Iterator_incr_def Iterator_post_incr_def Iterator_default_def
      ErrorIterator_eq_def ErrorIterator_incr_def ErrorIterator_post_incr_def
      ErrorIterator_default_def)

section \<open>Properties of the task queue\<close>

lemma pushes_inner: "pushes P ts q = q\<lparr>inner := inner q @ ts\<rparr>"
  by (induction ts arbitrary: q) (simp_all add: push_def Inner_push_def)

lemma pop_serial_nonempty:
  "Inner_pop P (inner q) = Some (t, i') \<Longrightarrow> pop P [] q = Done (t, q\<lparr>inner := i'\<rparr>)"
  by (cases "inner q") (simp_all add: pop_def Inner_size_def)

lemma pop_serial_empty: "inner q = [] \<Longrightarrow> pop P [] q = Blocked"
  by (simp add: pop_def Inner_size_def)

lemma Inner_pop_LIFO_snoc: "Inner_pop LIFO (i @ [t]) = Some (t, i)"
  by (cases i) simp_all

lemma pops_FIFO: "pops FIFO (length ts) (q\<lparr>inner := ts\<rparr>) = Done (ts, q\<lparr>inner := []\<rparr>)"
proof (induction ts)
  case Nil
  show ?case by simp
next
  case (Cons t ts)
  have "pop FIFO [] (q\<lparr>inner := t # ts\<rparr>) = Done (t, q\<lparr>inner := ts\<rparr>)"
    using pop_serial_nonempty [of FIFO "q\<lparr>inner := t # ts\<rparr>" t ts] by simp
  with Cons.IH show ?case by simp
qed

lemma pops_LIFO:
  "pops LIFO (length ts) (q\<lparr>inner := i @ ts\<rparr>) = Done (rev ts, q\<lparr>inner := i\<rparr>)"
proof (induction ts rule: rev_induct)
  case Nil
  show ?case by simp
next
  case (snoc t ts)
  have "pop LIFO [] (q\<lparr>inner := i @ ts @ [t]\<rparr>) = Done (t, q\<lparr>inner := i @ ts\<rparr>)"
    using pop_serial_nonempty [of LIFO "q\<lparr>inner := i @ ts @ [t]\<rparr>" t "i @ ts"]
      Inner_pop_LIFO_snoc [of "i @ ts" t] by simp
  with snoc.IH show ?case by simp
qed

text \<open>
  C8. Serial use of a new queue: after pushing the tasks \<open>ts\<close> one by one, as many pops
  return them in push order under FIFO and in reverse push order under LIFO, and leave
  the queue empty.
\<close>

theorem serial_pop_order:
  "pops FIFO (length ts) (pushes FIFO ts TaskQueue_new) = Done (ts, TaskQueue_new)
   \<and> pops LIFO (length ts) (pushes LIFO ts TaskQueue_new) = Done (rev ts, TaskQueue_new)"
proof -
  have "pops FIFO (length ts) (TaskQueue_new\<lparr>inner := ts\<rparr>)
          = Done (ts, TaskQueue_new\<lparr>inner := []\<rparr>)"
    by (rule pops_FIFO)
  moreover have "pops LIFO (length ts) (TaskQueue_new\<lparr>inner := [] @ ts\<rparr>)
          = Done (rev ts, TaskQueue_new\<lparr>inner := []\<rparr>)"
    by (rule pops_LIFO)
  ultimately show ?thesis
    by (simp add: pushes_inner TaskQueue_new_def)
qed

lemma Inner_pop_nonempty: "i \<noteq> [] \<Longrightarrow> \<exists>t i'. Inner_pop P i = Some (t, i')"
  by (cases i; cases P) simp_all

lemma cv_wait_for_True: "cv_wait_for P wakes final i = (True, i') \<Longrightarrow> i' \<noteq> []"
  by (induction wakes arbitrary: i) (auto simp: Inner_size_def Let_def split: if_splits)

lemma cv_wait_for_status:
  "fst (cv_wait_for P wakes final i) = (\<not> still_empty P wakes final i)"
  by (induction wakes arbitrary: i) (auto simp: Inner_size_def Let_def still_empty_def)

lemma cv_wait_for_nonempty: "i \<noteq> [] \<Longrightarrow> cv_wait_for P wakes final i = (True, i)"
  by (cases wakes) (simp_all add: Inner_size_def)

text \<open>
  C9. \<^verbatim>\<open>pop_for\<close> always returns an optional and neither throws nor asks the container
  for a task it does not hold. It returns "no value" exactly when the wait timed out
  with the queue still empty (empty at the call, after each wake-up and at the
  deadline); otherwise it returns one task, popped from the container the wait ended
  on. In particular a queue that stays empty gives "no value", and a queue that is not
  empty at the call gives the task that the policy pops from it.
\<close>

theorem pop_for_optional:
  "\<exists>r q'. pop_for P wakes final q = Done (r, q')
     \<and> (r = None) = still_empty P wakes final (inner q)
     \<and> (\<forall>t. r = Some t \<longrightarrow>
          Inner_pop P (snd (cv_wait_for P wakes final (inner q))) = Some (t, inner q'))
     \<and> (inner q \<noteq> [] \<longrightarrow> (\<exists>t. r = Some t \<and> Inner_pop P (inner q) = Some (t, inner q')))"
proof (cases "cv_wait_for P wakes final (inner q)")
  case (Pair status i)
  show ?thesis
  proof (cases status)
    case False
    with Pair have empty: "still_empty P wakes final (inner q)"
      using cv_wait_for_status [of P wakes final "inner q"] by simp
    have "inner q = []"
      using Pair False cv_wait_for_nonempty [of "inner q" P wakes final] by auto
    with Pair False empty show ?thesis
      by (simp add: pop_for_def)
  next
    case True
    with Pair have "i \<noteq> []"
      using cv_wait_for_True by fastforce
    then obtain t i' where p: "Inner_pop P i = Some (t, i')"
      using Inner_pop_nonempty by blast
    have ne: "\<not> still_empty P wakes final (inner q)"
      using cv_wait_for_status [of P wakes final "inner q"] Pair True by simp
    have res: "pop_for P wakes final q = Done (Some t, q\<lparr>inner := i'\<rparr>)"
      using Pair True p by (simp add: pop_for_def)
    have "inner q \<noteq> [] \<Longrightarrow> Inner_pop P (inner q) = Some (t, i')"
      using cv_wait_for_nonempty [of "inner q" P wakes final] Pair p by simp
    with res ne Pair p show ?thesis by simp
  qed
qed

text \<open>
  The theorem at two inputs: a LIFO queue holding the tasks 1 and 2 gives the task 2 at
  once, and a new FIFO queue that no other thread touches gives "no value".
\<close>

theorem pop_for_optional_witness:
  "inner \<lparr>inner = [1::int, 2]\<rparr> \<noteq> []
   \<and> pop_for LIFO [] [] \<lparr>inner = [1::int, 2]\<rparr> = Done (Some 2, \<lparr>inner = [1]\<rparr>)
   \<and> still_empty FIFO [[]] [] (inner (TaskQueue_new :: int TaskQueue))
   \<and> pop_for FIFO [[]] [] (TaskQueue_new :: int TaskQueue) = Done (None, TaskQueue_new)"
  using pop_for_optional [of LIFO "[]" "[]" "\<lparr>inner = [1::int, 2]\<rparr>"]
    pop_for_optional [of FIFO "[[]]" "[]" "TaskQueue_new :: int TaskQueue"]
  by (simp add: pop_for_def still_empty_def TaskQueue_new_def Inner_size_def)

end
